theory Spec2Isabelle
  imports Complex_Main
begin

section \<open>The 4x4 matrix utility of IndexBuffer (Utility/CMatrix4x4.h)\<close>

text \<open>
  The matrix class holds sixteen \<^verbatim>\<open>float\<close> members \<^verbatim>\<open>e00 .. e33\<close>, declared row by row.
  The element type is a parameter of the development.  Definitions ask only for the
  arithmetic operations the source applies (\<open>+\<close>, \<open>-\<close>, \<open>*\<close>, \<open>/\<close>, \<open>0\<close>, \<open>1\<close>), so the
  structural theorems below use no law of arithmetic at all and hold at every element
  type.  Two element types matter: a field, that is, exact arithmetic (\<^typ>\<open>real\<close> is an
  instance), and the type \<open>float32\<close> below, which has the infinities, the NaN and the
  overflow of the machine type \<^verbatim>\<open>float\<close>.  What holds in exact arithmetic need not hold
  for the machine type, and the theorems say at which type they are stated.
\<close>

subsection \<open>Data\<close>

text \<open>
  Modelled from the spec: the class \<^verbatim>\<open>CVector3\<close> (header \<^verbatim>\<open>CVector3.h\<close>, not among the
  sources).  The spec describes it as three floats \<open>(x, y, z)\<close>; the matrix code reads
  exactly the members \<^verbatim>\<open>v.x\<close>, \<^verbatim>\<open>v.y\<close>, \<^verbatim>\<open>v.z\<close> and builds a value from three floats.
\<close>

record 'a CVector3 =
  x :: 'a
  y :: 'a
  z :: 'a

record 'a CMatrix4x4 =
  e00 :: 'a
  e01 :: 'a
  e02 :: 'a
  e03 :: 'a
  e10 :: 'a
  e11 :: 'a
  e12 :: 'a
  e13 :: 'a
  e20 :: 'a
  e21 :: 'a
  e22 :: 'a
  e23 :: 'a
  e30 :: 'a
  e31 :: 'a
  e32 :: 'a
  e33 :: 'a

subsection \<open>Row accessors: pointer arithmetic over the sixteen members\<close>

text \<open>
  \<^verbatim>\<open>SetRow\<close> and \<^verbatim>\<open>GetRow\<close> compute \<^verbatim>\<open>pfElts = &e00 + iRow * 4\<close> and access
  \<^verbatim>\<open>pfElts[0..2]\<close>.  The members lie in declaration order, so the float at offset \<open>i\<close>
  from \<^verbatim>\<open>&e00\<close> is the \<open>i\<close>-th member for \<open>0 \<le> i < 16\<close>.  An access at any other offset
  leaves the object: it is undefined behaviour, the value \<open>None\<close> of the model.
\<close>

definition elt_read :: "int \<Rightarrow> 'a CMatrix4x4 \<Rightarrow> 'a option" where
  "elt_read i m =
    (if i = 0 then Some (e00 m) else if i = 1 then Some (e01 m)
     else if i = 2 then Some (e02 m) else if i = 3 then Some (e03 m)
     else if i = 4 then Some (e10 m) else if i = 5 then Some (e11 m)
     else if i = 6 then Some (e12 m) else if i = 7 then Some (e13 m)
     else if i = 8 then Some (e20 m) else if i = 9 then Some (e21 m)
     else if i = 10 then Some (e22 m) else if i = 11 then Some (e23 m)
     else if i = 12 then Some (e30 m) else if i = 13 then Some (e31 m)
     else if i = 14 then Some (e32 m) else if i = 15 then Some (e33 m)
     else None)"

definition elt_write :: "int \<Rightarrow> 'a \<Rightarrow> 'a CMatrix4x4 \<Rightarrow> 'a CMatrix4x4 option" where
  "elt_write i v m =
    (if i = 0 then Some (m\<lparr>e00 := v\<rparr>) else if i = 1 then Some (m\<lparr>e01 := v\<rparr>)
     else if i = 2 then Some (m\<lparr>e02 := v\<rparr>) else if i = 3 then Some (m\<lparr>e03 := v\<rparr>)
     else if i = 4 then Some (m\<lparr>e10 := v\<rparr>) else if i = 5 then Some (m\<lparr>e11 := v\<rparr>)
     else if i = 6 then Some (m\<lparr>e12 := v\<rparr>) else if i = 7 then Some (m\<lparr>e13 := v\<rparr>)
     else if i = 8 then Some (m\<lparr>e20 := v\<rparr>) else if i = 9 then Some (m\<lparr>e21 := v\<rparr>)
     else if i = 10 then Some (m\<lparr>e22 := v\<rparr>) else if i = 11 then Some (m\<lparr>e23 := v\<rparr>)
     else if i = 12 then Some (m\<lparr>e30 := v\<rparr>) else if i = 13 then Some (m\<lparr>e31 := v\<rparr>)
     else if i = 14 then Some (m\<lparr>e32 := v\<rparr>) else if i = 15 then Some (m\<lparr>e33 := v\<rparr>)
     else None)"

text \<open>
  \<^verbatim>\<open>void SetRow(int iRow, const CVector3& v)\<close>: three writes through \<^verbatim>\<open>pfElts\<close>, in the
  order of the source.  The receiver is passed in and the updated receiver returned.
\<close>

definition SetRow :: "int \<Rightarrow> 'a CVector3 \<Rightarrow> 'a CMatrix4x4 \<Rightarrow> 'a CMatrix4x4 option" where
  "SetRow iRow v this =
    (let pfElts = iRow * 4 in
     case elt_write (pfElts + 0) (x v) this of
       None \<Rightarrow> None
     | Some this1 \<Rightarrow>
        (case elt_write (pfElts + 1) (y v) this1 of
           None \<Rightarrow> None
         | Some this2 \<Rightarrow> elt_write (pfElts + 2) (z v) this2))"

text \<open>\<^verbatim>\<open>CVector3 GetRow(int iRow) const\<close>: three reads through \<^verbatim>\<open>pfElts\<close>.\<close>

definition GetRow :: "int \<Rightarrow> 'a CMatrix4x4 \<Rightarrow> 'a CVector3 option" where
  "GetRow iRow this =
    (let pfElts = iRow * 4 in
     case elt_read (pfElts + 0) this of
       None \<Rightarrow> None
     | Some a \<Rightarrow>
        (case elt_read (pfElts + 1) this of
           None \<Rightarrow> None
         | Some b \<Rightarrow>
            (case elt_read (pfElts + 2) this of
               None \<Rightarrow> None
             | Some c \<Rightarrow> Some \<lparr>x = a, y = b, z = c\<rparr>)))"

subsection \<open>Matrix-matrix multiplication\<close>

text \<open>
  \<^verbatim>\<open>CMatrix4x4 operator*(const CMatrix4x4& m1, const CMatrix4x4& m2)\<close>.  Every member of
  \<^verbatim>\<open>mOut\<close> is assigned once, from the operands only; \<open>+\<close> associates to the left as in
  C++.
\<close>

definition operator_mul ::
  "'a::{plus,times} CMatrix4x4 \<Rightarrow> 'a CMatrix4x4 \<Rightarrow> 'a CMatrix4x4" where
  "operator_mul m1 m2 =
    \<lparr> e00 = e00 m1 * e00 m2 + e01 m1 * e10 m2 + e02 m1 * e20 m2 + e03 m1 * e30 m2,
      e01 = e00 m1 * e01 m2 + e01 m1 * e11 m2 + e02 m1 * e21 m2 + e03 m1 * e31 m2,
      e02 = e00 m1 * e02 m2 + e01 m1 * e12 m2 + e02 m1 * e22 m2 + e03 m1 * e32 m2,
      e03 = e00 m1 * e03 m2 + e01 m1 * e13 m2 + e02 m1 * e23 m2 + e03 m1 * e33 m2,

      e10 = e10 m1 * e00 m2 + e11 m1 * e10 m2 + e12 m1 * e20 m2 + e13 m1 * e30 m2,
      e11 = e10 m1 * e01 m2 + e11 m1 * e11 m2 + e12 m1 * e21 m2 + e13 m1 * e31 m2,
      e12 = e10 m1 * e02 m2 + e11 m1 * e12 m2 + e12 m1 * e22 m2 + e13 m1 * e32 m2,
      e13 = e10 m1 * e03 m2 + e11 m1 * e13 m2 + e12 m1 * e23 m2 + e13 m1 * e33 m2,

      e20 = e20 m1 * e00 m2 + e21 m1 * e10 m2 + e22 m1 * e20 m2 + e23 m1 * e30 m2,
      e21 = e20 m1 * e01 m2 + e21 m1 * e11 m2 + e22 m1 * e21 m2 + e23 m1 * e31 m2,
      e22 = e20 m1 * e02 m2 + e21 m1 * e12 m2 + e22 m1 * e22 m2 + e23 m1 * e32 m2,
      e23 = e20 m1 * e03 m2 + e21 m1 * e13 m2 + e22 m1 * e23 m2 + e23 m1 * e33 m2,

      e30 = e30 m1 * e00 m2 + e31 m1 * e10 m2 + e32 m1 * e20 m2 + e33 m1 * e30 m2,
      e31 = e30 m1 * e01 m2 + e31 m1 * e11 m2 + e32 m1 * e21 m2 + e33 m1 * e31 m2,
      e32 = e30 m1 * e02 m2 + e31 m1 * e12 m2 + e32 m1 * e22 m2 + e33 m1 * e32 m2,
      e33 = e30 m1 * e03 m2 + e31 m1 * e13 m2 + e32 m1 * e23 m2 + e33 m1 * e33 m2 \<rparr>"

subsection \<open>In-place multiplication\<close>

text \<open>
  \<^verbatim>\<open>CMatrix4x4& operator*=(const CMatrix4x4& m)\<close> writes the receiver while it reads
  the argument, and the argument is a reference that may denote the receiver.  Matrices
  therefore live in a store, receiver and argument are addresses, and every assignment
  of the source is one update of the store that reads the store as it is at that
  moment.  Each row block of the \<^verbatim>\<open>else\<close> branch computes \<^verbatim>\<open>t0\<close>, \<^verbatim>\<open>t1\<close>, \<^verbatim>\<open>t2\<close>, then
  assigns the fourth member of the row, then the first three.
\<close>

type_synonym addr = nat

type_synonym 'a store = "addr \<Rightarrow> 'a CMatrix4x4"

definition mul_assign_row0 :: "addr \<Rightarrow> addr \<Rightarrow> ('a::{plus,times}) store \<Rightarrow> 'a store" where
  "mul_assign_row0 this m s0 =
    (let t0 = e00 (s0 this) * e00 (s0 m) + e01 (s0 this) * e10 (s0 m) + e02 (s0 this) * e20 (s0 m) + e03 (s0 this) * e30 (s0 m);
         t1 = e00 (s0 this) * e01 (s0 m) + e01 (s0 this) * e11 (s0 m) + e02 (s0 this) * e21 (s0 m) + e03 (s0 this) * e31 (s0 m);
         t2 = e00 (s0 this) * e02 (s0 m) + e01 (s0 this) * e12 (s0 m) + e02 (s0 this) * e22 (s0 m) + e03 (s0 this) * e32 (s0 m);
         s1 = s0(this := (s0 this)\<lparr>e03 :=
                e00 (s0 this) * e03 (s0 m) + e01 (s0 this) * e13 (s0 m) + e02 (s0 this) * e23 (s0 m) + e03 (s0 this) * e33 (s0 m)\<rparr>);
         s2 = s1(this := (s1 this)\<lparr>e00 := t0\<rparr>);
         s3 = s2(this := (s2 this)\<lparr>e01 := t1\<rparr>);
         s4 = s3(this := (s3 this)\<lparr>e02 := t2\<rparr>)
     in s4)"

definition mul_assign_row1 :: "addr \<Rightarrow> addr \<Rightarrow> ('a::{plus,times}) store \<Rightarrow> 'a store" where
  "mul_assign_row1 this m s0 =
    (let t0 = e10 (s0 this) * e00 (s0 m) + e11 (s0 this) * e10 (s0 m) + e12 (s0 this) * e20 (s0 m) + e13 (s0 this) * e30 (s0 m);
         t1 = e10 (s0 this) * e01 (s0 m) + e11 (s0 this) * e11 (s0 m) + e12 (s0 this) * e21 (s0 m) + e13 (s0 this) * e31 (s0 m);
         t2 = e10 (s0 this) * e02 (s0 m) + e11 (s0 this) * e12 (s0 m) + e12 (s0 this) * e22 (s0 m) + e13 (s0 this) * e32 (s0 m);
         s1 = s0(this := (s0 this)\<lparr>e13 :=
                e10 (s0 this) * e03 (s0 m) + e11 (s0 this) * e13 (s0 m) + e12 (s0 this) * e23 (s0 m) + e13 (s0 this) * e33 (s0 m)\<rparr>);
         s2 = s1(this := (s1 this)\<lparr>e10 := t0\<rparr>);
         s3 = s2(this := (s2 this)\<lparr>e11 := t1\<rparr>);
         s4 = s3(this := (s3 this)\<lparr>e12 := t2\<rparr>)
     in s4)"

definition mul_assign_row2 :: "addr \<Rightarrow> addr \<Rightarrow> ('a::{plus,times}) store \<Rightarrow> 'a store" where
  "mul_assign_row2 this m s0 =
    (let t0 = e20 (s0 this) * e00 (s0 m) + e21 (s0 this) * e10 (s0 m) + e22 (s0 this) * e20 (s0 m) + e23 (s0 this) * e30 (s0 m);
         t1 = e20 (s0 this) * e01 (s0 m) + e21 (s0 this) * e11 (s0 m) + e22 (s0 this) * e21 (s0 m) + e23 (s0 this) * e31 (s0 m);
         t2 = e20 (s0 this) * e02 (s0 m) + e21 (s0 this) * e12 (s0 m) + e22 (s0 this) * e22 (s0 m) + e23 (s0 this) * e32 (s0 m);
         s1 = s0(this := (s0 this)\<lparr>e23 :=
                e20 (s0 this) * e03 (s0 m) + e21 (s0 this) * e13 (s0 m) + e22 (s0 this) * e23 (s0 m) + e23 (s0 this) * e33 (s0 m)\<rparr>);
         s2 = s1(this := (s1 this)\<lparr>e20 := t0\<rparr>);
         s3 = s2(this := (s2 this)\<lparr>e21 := t1\<rparr>);
         s4 = s3(this := (s3 this)\<lparr>e22 := t2\<rparr>)
     in s4)"

definition mul_assign_row3 :: "addr \<Rightarrow> addr \<Rightarrow> ('a::{plus,times}) store \<Rightarrow> 'a store" where
  "mul_assign_row3 this m s0 =
    (let t0 = e30 (s0 this) * e00 (s0 m) + e31 (s0 this) * e10 (s0 m) + e32 (s0 this) * e20 (s0 m) + e33 (s0 this) * e30 (s0 m);
         t1 = e30 (s0 this) * e01 (s0 m) + e31 (s0 this) * e11 (s0 m) + e32 (s0 this) * e21 (s0 m) + e33 (s0 this) * e31 (s0 m);
         t2 = e30 (s0 this) * e02 (s0 m) + e31 (s0 this) * e12 (s0 m) + e32 (s0 this) * e22 (s0 m) + e33 (s0 this) * e32 (s0 m);
         s1 = s0(this := (s0 this)\<lparr>e33 :=
                e30 (s0 this) * e03 (s0 m) + e31 (s0 this) * e13 (s0 m) + e32 (s0 this) * e23 (s0 m) + e33 (s0 this) * e33 (s0 m)\<rparr>);
         s2 = s1(this := (s1 this)\<lparr>e30 := t0\<rparr>);
         s3 = s2(this := (s2 this)\<lparr>e31 := t1\<rparr>);
         s4 = s3(this := (s3 this)\<lparr>e32 := t2\<rparr>)
     in s4)"

text \<open>The \<^verbatim>\<open>else\<close> branch: the four row blocks in sequence.\<close>

definition mul_assign_rows :: "addr \<Rightarrow> addr \<Rightarrow> ('a::{plus,times}) store \<Rightarrow> 'a store" where
  "mul_assign_rows this m s =
    mul_assign_row3 this m (mul_assign_row2 this m (mul_assign_row1 this m (mul_assign_row0 this m s)))"

text \<open>
  The operator: \<^verbatim>\<open>if (this == &m) *this = m * m; else ...\<close>.  The returned reference is
  the receiver's address and is left out.
\<close>

definition operator_mul_assign :: "addr \<Rightarrow> addr \<Rightarrow> ('a::{plus,times}) store \<Rightarrow> 'a store" where
  "operator_mul_assign this m s =
    (if this = m then s(this := operator_mul (s m) (s m))
     else mul_assign_rows this m s)"

subsection \<open>Factory functions\<close>

text \<open>\<^verbatim>\<open>CMatrix4x4 MatrixIdentity()\<close>\<close>

definition MatrixIdentity :: "'a::{zero,one} CMatrix4x4" where
  "MatrixIdentity =
    \<lparr> e00 = 1, e01 = 0, e02 = 0, e03 = 0,
      e10 = 0, e11 = 1, e12 = 0, e13 = 0,
      e20 = 0, e21 = 0, e22 = 1, e23 = 0,
      e30 = 0, e31 = 0, e32 = 0, e33 = 1 \<rparr>"

text \<open>\<^verbatim>\<open>CMatrix4x4 MatrixScaling(const float s)\<close>, the overload for a uniform scaling.\<close>

definition MatrixScaling :: "'a::{zero,one} \<Rightarrow> 'a CMatrix4x4" where
  "MatrixScaling s =
    \<lparr> e00 = s, e01 = 0, e02 = 0, e03 = 0,
      e10 = 0, e11 = s, e12 = 0, e13 = 0,
      e20 = 0, e21 = 0, e22 = s, e23 = 0,
      e30 = 0, e31 = 0, e32 = 0, e33 = 1 \<rparr>"

text \<open>
  \<^verbatim>\<open>CMatrix4x4 MatrixRotationX(float x)\<close>, over the reals with the sine and cosine of
  analysis for \<^verbatim>\<open>std::sin\<close> and \<^verbatim>\<open>std::cos\<close>.
\<close>

definition MatrixRotationX :: "real \<Rightarrow> real CMatrix4x4" where
  "MatrixRotationX angle =
    (let sX = sin angle;
         cX = cos angle
     in \<lparr> e00 = 1, e01 = 0, e02 = 0, e03 = 0,
          e10 = 0, e11 = cX, e12 = sX, e13 = 0,
          e20 = 0, e21 = - sX, e22 = cX, e23 = 0,
          e30 = 0, e31 = 0, e32 = 0, e33 = 1 \<rparr>)"

subsection \<open>Affine inverse\<close>

text \<open>
  \<^verbatim>\<open>CMatrix4x4 InverseAffine(const CMatrix4x4& m)\<close>.  The members of \<^verbatim>\<open>mOut\<close> are
  assigned in the order of the source; the translation row reads the members of
  \<^verbatim>\<open>mOut\<close> assigned before it.  There is no test of \<^verbatim>\<open>det\<close> and no error path.
\<close>

definition InverseAffine ::
  "'a::{plus,minus,uminus,times,inverse,zero,one} CMatrix4x4 \<Rightarrow> 'a CMatrix4x4" where
  "InverseAffine m =
    (let det0 = e11 m * e22 m - e12 m * e21 m;
         det1 = e12 m * e20 m - e10 m * e22 m;
         det2 = e10 m * e21 m - e11 m * e20 m;
         det = e00 m * det0 + e01 m * det1 + e02 m * det2;

         invDet = 1 / det;
         mOut_e00 = invDet * det0;
         mOut_e10 = invDet * det1;
         mOut_e20 = invDet * det2;

         mOut_e01 = invDet * (e21 m * e02 m - e22 m * e01 m);
         mOut_e11 = invDet * (e22 m * e00 m - e20 m * e02 m);
         mOut_e21 = invDet * (e20 m * e01 m - e21 m * e00 m);

         mOut_e02 = invDet * (e01 m * e12 m - e02 m * e11 m);
         mOut_e12 = invDet * (e02 m * e10 m - e00 m * e12 m);
         mOut_e22 = invDet * (e00 m * e11 m - e01 m * e10 m);

         mOut_e30 = (- e30 m) * mOut_e00 - e31 m * mOut_e10 - e32 m * mOut_e20;
         mOut_e31 = (- e30 m) * mOut_e01 - e31 m * mOut_e11 - e32 m * mOut_e21;
         mOut_e32 = (- e30 m) * mOut_e02 - e31 m * mOut_e12 - e32 m * mOut_e22
     in \<lparr> e00 = mOut_e00, e01 = mOut_e01, e02 = mOut_e02, e03 = 0,
          e10 = mOut_e10, e11 = mOut_e11, e12 = mOut_e12, e13 = 0,
          e20 = mOut_e20, e21 = mOut_e21, e22 = mOut_e22, e23 = 0,
          e30 = mOut_e30, e31 = mOut_e31, e32 = mOut_e32, e33 = 1 \<rparr>)"

text \<open>
  The determinant of the upper-left 3x3 block, as \<^verbatim>\<open>InverseAffine\<close> computes it
  (\<^verbatim>\<open>det0\<close>, \<^verbatim>\<open>det1\<close>, \<^verbatim>\<open>det2\<close>, \<^verbatim>\<open>det\<close>).
\<close>

definition det3 :: "'a::{plus,minus,times} CMatrix4x4 \<Rightarrow> 'a" where
  "det3 m =
    e00 m * (e11 m * e22 m - e12 m * e21 m)
    + e01 m * (e12 m * e20 m - e10 m * e22 m)
    + e02 m * (e10 m * e21 m - e11 m * e20 m)"

text \<open>
  The element \<open>m[r][c]\<close> of row \<open>r\<close> and column \<open>c\<close>, the member \<^verbatim>\<open>e<r><c>\<close>: the float at
  offset \<open>4 r + c\<close> of the row-major layout, for \<open>r\<close> and \<open>c\<close> in \<open>0..3\<close>.  Outside
  that range no member is denoted.
\<close>

definition elt :: "'a CMatrix4x4 \<Rightarrow> nat \<Rightarrow> nat \<Rightarrow> 'a" where
  "elt m r c =
    (if r < 4 \<and> c < 4 then the (elt_read (int r * 4 + int c) m) else undefined)"

subsection \<open>The machine type \<^verbatim>\<open>float\<close>\<close>

text \<open>
  The members are IEEE 754 binary32 numbers.  The type \<open>float32\<close> has what the claims
  about the machine type turn on:
  \<^item> the values: a finite number, the two infinities and NaN;
  \<^item> the rules for the special values: \<open>0 * inf\<close>, \<open>inf - inf\<close>, \<open>0 / 0\<close> and \<open>inf / inf\<close> are
    NaN, NaN propagates, \<open>a / 0\<close> is an infinity for \<open>a \<noteq> 0\<close>, \<open>a / inf\<close> is \<open>0\<close>, and an
    infinity keeps its magnitude and takes the sign of the operation;
  \<^item> overflow: a result whose exact value has magnitude \<open>2 ^ 128\<close> or more is an infinity
    (binary32 rounds such a value to an infinity in the default rounding mode).

  Left out: the rounding of the significand (a finite result carries its exact value),
  underflow, and the sign of zero (\<open>+0\<close> and \<open>-0\<close>, equal under \<^verbatim>\<open>==\<close>, are one value, so
  \<open>1 / 0\<close> is \<open>+inf\<close> where the machine may give \<open>-inf\<close>).  So one operation on operands
  the machine has gives an infinity or NaN here only if it does on the machine, and on
  inputs whose intermediate results are all exactly representable (small integers,
  powers of two) the functions compute here what they compute on the machine.
  Equality is equality of values: NaN equals itself here, unlike under \<^verbatim>\<open>==\<close>.
\<close>

datatype float32 = Finite real | PlusInf | MinusInf | NaN

definition range32 :: "real \<Rightarrow> float32" where
  "range32 r =
    (if 2 ^ 128 \<le> r then PlusInf else if r \<le> - (2 ^ 128) then MinusInf else Finite r)"

text \<open>The infinity of a given sign; NaN where there is no sign (\<open>0 * inf\<close>, \<open>0 / 0\<close>).\<close>

definition inf_of_sign :: "real \<Rightarrow> float32" where
  "inf_of_sign r = (if 0 < r then PlusInf else if r < 0 then MinusInf else NaN)"

fun fsign :: "float32 \<Rightarrow> real" where
  "fsign (Finite a) = sgn a"
| "fsign PlusInf = 1"
| "fsign MinusInf = - 1"
| "fsign NaN = 0"

fun fneg :: "float32 \<Rightarrow> float32" where
  "fneg (Finite a) = Finite (- a)"
| "fneg PlusInf = MinusInf"
| "fneg MinusInf = PlusInf"
| "fneg NaN = NaN"

fun fadd :: "float32 \<Rightarrow> float32 \<Rightarrow> float32" where
  "fadd NaN v = NaN"
| "fadd u NaN = NaN"
| "fadd (Finite a) (Finite b) = range32 (a + b)"
| "fadd PlusInf MinusInf = NaN"
| "fadd MinusInf PlusInf = NaN"
| "fadd PlusInf v = PlusInf"
| "fadd u PlusInf = PlusInf"
| "fadd MinusInf v = MinusInf"
| "fadd u MinusInf = MinusInf"

fun fmul :: "float32 \<Rightarrow> float32 \<Rightarrow> float32" where
  "fmul NaN v = NaN"
| "fmul u NaN = NaN"
| "fmul (Finite a) (Finite b) = range32 (a * b)"
| "fmul u v = inf_of_sign (fsign u * fsign v)"

fun fdiv :: "float32 \<Rightarrow> float32 \<Rightarrow> float32" where
  "fdiv NaN v = NaN"
| "fdiv u NaN = NaN"
| "fdiv (Finite a) (Finite b) = (if b = 0 then inf_of_sign a else range32 (a / b))"
| "fdiv (Finite a) v = Finite 0"
| "fdiv u (Finite b) = inf_of_sign (if b < 0 then - fsign u else fsign u)"
| "fdiv u v = NaN"

text \<open>
  The operators of the source at this type.  The literals \<^verbatim>\<open>0.0f\<close> and \<^verbatim>\<open>1.0f\<close> are
  \<open>Finite 0\<close> and \<open>Finite 1\<close>; \<open>u - v\<close> is \<open>u + (- v)\<close>, as in IEEE 754.
\<close>

instantiation float32 :: "{zero,one,plus,minus,uminus,times,inverse}"
begin

definition zero_float32_def: "0 = Finite 0"

definition one_float32_def: "1 = Finite 1"

definition plus_float32_def: "u + v = fadd u v"

definition uminus_float32_def: "- u = fneg u"

definition minus_float32_def: "u - v = fadd u (fneg v)"

definition times_float32_def: "u * v = fmul u v"

definition divide_float32_def: "u div v = fdiv u v"

definition inverse_float32_def: "inverse u = fdiv (Finite 1) u"

instance ..

end

text \<open>
  \<^verbatim>\<open>std::isfinite\<close>, and its complement on the values the machine has: an infinity or
  NaN.
\<close>

fun isfinite :: "float32 \<Rightarrow> bool" where
  "isfinite (Finite a) = (\<bar>a\<bar> < 2 ^ 128)"
| "isfinite v = False"


definition finite_matrix :: "float32 CMatrix4x4 \<Rightarrow> bool" where
  "finite_matrix m \<longleftrightarrow>
    isfinite (e00 m) \<and> isfinite (e01 m) \<and> isfinite (e02 m) \<and> isfinite (e03 m) \<and>
    isfinite (e10 m) \<and> isfinite (e11 m) \<and> isfinite (e12 m) \<and> isfinite (e13 m) \<and>
    isfinite (e20 m) \<and> isfinite (e21 m) \<and> isfinite (e22 m) \<and> isfinite (e23 m) \<and>
    isfinite (e30 m) \<and> isfinite (e31 m) \<and> isfinite (e32 m) \<and> isfinite (e33 m)"

subsection \<open>Sample values\<close>

text \<open>
  Concrete values on which the theorems below are instantiated: an affine matrix with
  a shear, a scale and a translation, a matrix with sixteen different elements, a
  vector, and a store that holds the general matrix at address \<open>0\<close> and the affine one
  everywhere else.  At the machine type: that general matrix, the same with \<open>+inf\<close> for
  \<open>e00\<close>, and an affine matrix whose block is singular (its second row is twice the
  first).
\<close>

definition sample_affine :: "real CMatrix4x4" where
  "sample_affine =
    \<lparr> e00 = 2, e01 = 0, e02 = 0, e03 = 0,
      e10 = 0, e11 = 1, e12 = 1, e13 = 0,
      e20 = 0, e21 = 0, e22 = 1, e23 = 0,
      e30 = 3, e31 = 4, e32 = 5, e33 = 1 \<rparr>"

definition sample_general :: "real CMatrix4x4" where
  "sample_general =
    \<lparr> e00 = 1, e01 = 2, e02 = 3, e03 = 4,
      e10 = 5, e11 = 6, e12 = 7, e13 = 8,
      e20 = 9, e21 = 10, e22 = 11, e23 = 12,
      e30 = 13, e31 = 14, e32 = 15, e33 = 16 \<rparr>"

definition sample_vector :: "real CVector3" where
  "sample_vector = \<lparr> x = 21, y = 22, z = 23 \<rparr>"

definition sample_store :: "real store" where
  "sample_store a = (if a = 0 then sample_general else sample_affine)"

definition sample_finite32 :: "float32 CMatrix4x4" where
  "sample_finite32 =
    \<lparr> e00 = Finite 1, e01 = Finite 2, e02 = Finite 3, e03 = Finite 4,
      e10 = Finite 5, e11 = Finite 6, e12 = Finite 7, e13 = Finite 8,
      e20 = Finite 9, e21 = Finite 10, e22 = Finite 11, e23 = Finite 12,
      e30 = Finite 13, e31 = Finite 14, e32 = Finite 15, e33 = Finite 16 \<rparr>"

definition sample_inf32 :: "float32 CMatrix4x4" where
  "sample_inf32 = sample_finite32\<lparr>e00 := PlusInf\<rparr>"


section \<open>Arithmetic of the machine type\<close>

lemmas float32_arith = zero_float32_def one_float32_def plus_float32_def uminus_float32_def
  minus_float32_def times_float32_def divide_float32_def inverse_float32_def

lemmas float32_eval = float32_arith range32_def inf_of_sign_def






lemma isfinite_cases:
  assumes "isfinite v"
  obtains a where "v = Finite a" and "\<bar>a\<bar> < 2 ^ 128"
  using assms by (cases v) simp_all

text \<open>
  The dot product of finite numbers with a unit vector, added from left to right: the
  products with \<open>0\<close> are \<open>0\<close>, and nothing overflows.
\<close>

lemma dot_unit_float32:
  assumes "isfinite a" and "isfinite b" and "isfinite c" and "isfinite d"
  shows "1 * a + 0 * b + 0 * c + 0 * d = a"
    and "0 * a + 1 * b + 0 * c + 0 * d = b"
    and "0 * a + 0 * b + 1 * c + 0 * d = c"
    and "0 * a + 0 * b + 0 * c + 1 * d = d"
    and "a * 1 + b * 0 + c * 0 + d * 0 = a"
    and "a * 0 + b * 1 + c * 0 + d * 0 = b"
    and "a * 0 + b * 0 + c * 1 + d * 0 = c"
    and "a * 0 + b * 0 + c * 0 + d * 1 = d"
  using assms by (auto elim!: isfinite_cases simp add: float32_arith range32_def)

section \<open>Multiplication\<close>

subsection \<open>Elements of the product\<close>

lemma nat_below_4: "(r::nat) < 4 \<Longrightarrow> r = 0 \<or> r = 1 \<or> r = 2 \<or> r = 3"
  by arith

text \<open>
  Each element of the product is the four-term sum, added from left to right as the
  source writes it.  This form needs no law of arithmetic.
\<close>

lemma operator_mul_elt_ordered:
  fixes m1 m2 :: "'a::{plus,times} CMatrix4x4"
  assumes "r < 4" and "c < 4"
  shows "elt (operator_mul m1 m2) r c =
    elt m1 r 0 * elt m2 0 c + elt m1 r 1 * elt m2 1 c
    + elt m1 r 2 * elt m2 2 c + elt m1 r 3 * elt m2 3 c"
  using nat_below_4 [OF assms(1)] nat_below_4 [OF assms(2)]
  by (elim disjE) (simp_all add: elt_def elt_read_def operator_mul_def)

lemma sum_0_to_3:
  fixes f :: "nat \<Rightarrow> 'a::comm_monoid_add"
  shows "(\<Sum>k\<in>{0..3}. f k) = f 0 + f 1 + f 2 + f 3"
proof -
  have "{0..3::nat} = {0, 1, 2, 3}" by auto
  then show ?thesis by (simp add: add.assoc)
qed

text \<open>
  Claim C2.  For all matrices \<open>m1\<close> and \<open>m2\<close>, the product \<^verbatim>\<open>operator*(m1, m2)\<close> has at
  every row \<open>r\<close> and column \<open>c\<close> in \<open>0..3\<close> the value \<open>\<Sum>k\<in>{0..3}. m1[r][k] * m2[k][c]\<close>:
  standard 4x4 matrix multiplication.  Addition is assumed associative and commutative
  (so that the sum is defined); nothing is assumed of multiplication.
\<close>

theorem operator_mul_elements:
  fixes m1 m2 :: "'a::{comm_monoid_add,times} CMatrix4x4"
  shows "\<forall>r\<in>{0..3}. \<forall>c\<in>{0..3}.
    elt (operator_mul m1 m2) r c = (\<Sum>k\<in>{0..3}. elt m1 r k * elt m2 k c)"
  by (simp add: sum_0_to_3 operator_mul_elt_ordered)

text \<open>The theorem at row \<open>1\<close>, column \<open>2\<close> of a sample product: \<open>5 * 0 + 6 * 1 + 7 * 1 + 8 * 5 = 53\<close>.\<close>

theorem operator_mul_elements_witness:
  "(1::nat) \<in> {0..3} \<and> (2::nat) \<in> {0..3} \<and>
   elt (operator_mul sample_general sample_affine) 1 2 =
     (\<Sum>k\<in>{0..3}. elt sample_general 1 k * elt sample_affine k 2) \<and>
   elt (operator_mul sample_general sample_affine) 1 2 = 53"
proof -
  have r: "(1::nat) \<in> {0..3}" and c: "(2::nat) \<in> {0..3}" by simp_all
  from operator_mul_elements [of sample_general sample_affine] r c
  have "elt (operator_mul sample_general sample_affine) 1 2 =
     (\<Sum>k\<in>{0..3}. elt sample_general 1 k * elt sample_affine k 2)"
    by blast
  moreover have "elt (operator_mul sample_general sample_affine) 1 2 = 53"
    by (simp add: elt_def elt_read_def operator_mul_def sample_general_def sample_affine_def)
  ultimately show ?thesis by simp
qed

subsection \<open>Identity\<close>

lemma operator_mul_id_left:
  fixes M :: "'a::semiring_1 CMatrix4x4"
  shows "operator_mul MatrixIdentity M = M"
  by (simp add: operator_mul_def MatrixIdentity_def)

lemma operator_mul_id_right:
  fixes M :: "'a::semiring_1 CMatrix4x4"
  shows "operator_mul M MatrixIdentity = M"
  by (simp add: operator_mul_def MatrixIdentity_def)

text \<open>
  The two lemmas above are the identity laws in exact arithmetic.  At the machine type
  they need the elements to be finite.

  Claim C8, amended.  For every matrix \<open>M\<close> of the machine type whose sixteen elements
  are finite, \<open>multiply(Identity(), M) = M\<close> and \<open>multiply(M, Identity()) = M\<close>, element
  for element.
\<close>

theorem MatrixIdentity_neutral_finite:
  assumes "finite_matrix M"
  shows "operator_mul MatrixIdentity M = M \<and> operator_mul M MatrixIdentity = M"
  using assms
  by (simp add: finite_matrix_def operator_mul_def MatrixIdentity_def dot_unit_float32)

text \<open>The theorem at the sample matrix with the elements \<open>1, \<dots>, 16\<close>.\<close>

theorem MatrixIdentity_neutral_finite_witness:
  "finite_matrix sample_finite32 \<and>
   operator_mul MatrixIdentity sample_finite32 = sample_finite32 \<and>
   operator_mul sample_finite32 MatrixIdentity = sample_finite32"
proof -
  have fin: "finite_matrix sample_finite32"
    by (simp add: finite_matrix_def sample_finite32_def)
  from MatrixIdentity_neutral_finite [OF fin] fin show ?thesis by simp
qed

text \<open>
  Claim C8 as stated, for every matrix, fails at the machine type for a matrix with an
  infinite element: the product with the identity multiplies that element by \<open>0\<close>, and
  the NaN spreads over its column.  In the sample, \<open>e10\<close> of the product is
  \<open>0 * inf + 1 * 5 + 0 * 9 + 0 * 13\<close>, NaN instead of \<open>5\<close>.
\<close>

theorem MatrixIdentity_neutral_counterexample:
  "e10 (operator_mul MatrixIdentity sample_inf32) = NaN \<and>
   e10 sample_inf32 = Finite 5 \<and>
   operator_mul MatrixIdentity sample_inf32 \<noteq> sample_inf32"
  by (simp add: operator_mul_def MatrixIdentity_def sample_inf32_def sample_finite32_def
      float32_eval)

lemma operator_mul_assoc:
  fixes a b c :: "'a::semiring CMatrix4x4"
  shows "operator_mul (operator_mul a b) c = operator_mul a (operator_mul b c)"
  by (simp add: operator_mul_def algebra_simps)

subsection \<open>In-place multiplication against the binary product\<close>

text \<open>
  One row block, receiver and argument distinct: the block replaces its row of the
  receiver by the row of the product and leaves every other member, and every other
  matrix of the store, as it was.
\<close>

lemma mul_assign_row0_this:
  assumes "this \<noteq> m"
  shows
    "e00 (mul_assign_row0 this m s this) = 
       e00 (s this) * e00 (s m) + e01 (s this) * e10 (s m) + e02 (s this) * e20 (s m) + e03 (s this) * e30 (s m)"
    "e01 (mul_assign_row0 this m s this) = 
       e00 (s this) * e01 (s m) + e01 (s this) * e11 (s m) + e02 (s this) * e21 (s m) + e03 (s this) * e31 (s m)"
    "e02 (mul_assign_row0 this m s this) = 
       e00 (s this) * e02 (s m) + e01 (s this) * e12 (s m) + e02 (s this) * e22 (s m) + e03 (s this) * e32 (s m)"
    "e03 (mul_assign_row0 this m s this) = 
       e00 (s this) * e03 (s m) + e01 (s this) * e13 (s m) + e02 (s this) * e23 (s m) + e03 (s this) * e33 (s m)"
    "e10 (mul_assign_row0 this m s this) = e10 (s this)"
    "e11 (mul_assign_row0 this m s this) = e11 (s this)"
    "e12 (mul_assign_row0 this m s this) = e12 (s this)"
    "e13 (mul_assign_row0 this m s this) = e13 (s this)"
    "e20 (mul_assign_row0 this m s this) = e20 (s this)"
    "e21 (mul_assign_row0 this m s this) = e21 (s this)"
    "e22 (mul_assign_row0 this m s this) = e22 (s this)"
    "e23 (mul_assign_row0 this m s this) = e23 (s this)"
    "e30 (mul_assign_row0 this m s this) = e30 (s this)"
    "e31 (mul_assign_row0 this m s this) = e31 (s this)"
    "e32 (mul_assign_row0 this m s this) = e32 (s this)"
    "e33 (mul_assign_row0 this m s this) = e33 (s this)"
  using assms by (simp_all add: mul_assign_row0_def Let_def)

lemma mul_assign_row0_other:
  "a \<noteq> this \<Longrightarrow> mul_assign_row0 this m s a = s a"
  by (simp add: mul_assign_row0_def Let_def)

lemma mul_assign_row1_this:
  assumes "this \<noteq> m"
  shows
    "e00 (mul_assign_row1 this m s this) = e00 (s this)"
    "e01 (mul_assign_row1 this m s this) = e01 (s this)"
    "e02 (mul_assign_row1 this m s this) = e02 (s this)"
    "e03 (mul_assign_row1 this m s this) = e03 (s this)"
    "e10 (mul_assign_row1 this m s this) = 
       e10 (s this) * e00 (s m) + e11 (s this) * e10 (s m) + e12 (s this) * e20 (s m) + e13 (s this) * e30 (s m)"
    "e11 (mul_assign_row1 this m s this) = 
       e10 (s this) * e01 (s m) + e11 (s this) * e11 (s m) + e12 (s this) * e21 (s m) + e13 (s this) * e31 (s m)"
    "e12 (mul_assign_row1 this m s this) = 
       e10 (s this) * e02 (s m) + e11 (s this) * e12 (s m) + e12 (s this) * e22 (s m) + e13 (s this) * e32 (s m)"
    "e13 (mul_assign_row1 this m s this) = 
       e10 (s this) * e03 (s m) + e11 (s this) * e13 (s m) + e12 (s this) * e23 (s m) + e13 (s this) * e33 (s m)"
    "e20 (mul_assign_row1 this m s this) = e20 (s this)"
    "e21 (mul_assign_row1 this m s this) = e21 (s this)"
    "e22 (mul_assign_row1 this m s this) = e22 (s this)"
    "e23 (mul_assign_row1 this m s this) = e23 (s this)"
    "e30 (mul_assign_row1 this m s this) = e30 (s this)"
    "e31 (mul_assign_row1 this m s this) = e31 (s this)"
    "e32 (mul_assign_row1 this m s this) = e32 (s this)"
    "e33 (mul_assign_row1 this m s this) = e33 (s this)"
  using assms by (simp_all add: mul_assign_row1_def Let_def)

lemma mul_assign_row1_other:
  "a \<noteq> this \<Longrightarrow> mul_assign_row1 this m s a = s a"
  by (simp add: mul_assign_row1_def Let_def)

lemma mul_assign_row2_this:
  assumes "this \<noteq> m"
  shows
    "e00 (mul_assign_row2 this m s this) = e00 (s this)"
    "e01 (mul_assign_row2 this m s this) = e01 (s this)"
    "e02 (mul_assign_row2 this m s this) = e02 (s this)"
    "e03 (mul_assign_row2 this m s this) = e03 (s this)"
    "e10 (mul_assign_row2 this m s this) = e10 (s this)"
    "e11 (mul_assign_row2 this m s this) = e11 (s this)"
    "e12 (mul_assign_row2 this m s this) = e12 (s this)"
    "e13 (mul_assign_row2 this m s this) = e13 (s this)"
    "e20 (mul_assign_row2 this m s this) = 
       e20 (s this) * e00 (s m) + e21 (s this) * e10 (s m) + e22 (s this) * e20 (s m) + e23 (s this) * e30 (s m)"
    "e21 (mul_assign_row2 this m s this) = 
       e20 (s this) * e01 (s m) + e21 (s this) * e11 (s m) + e22 (s this) * e21 (s m) + e23 (s this) * e31 (s m)"
    "e22 (mul_assign_row2 this m s this) = 
       e20 (s this) * e02 (s m) + e21 (s this) * e12 (s m) + e22 (s this) * e22 (s m) + e23 (s this) * e32 (s m)"
    "e23 (mul_assign_row2 this m s this) = 
       e20 (s this) * e03 (s m) + e21 (s this) * e13 (s m) + e22 (s this) * e23 (s m) + e23 (s this) * e33 (s m)"
    "e30 (mul_assign_row2 this m s this) = e30 (s this)"
    "e31 (mul_assign_row2 this m s this) = e31 (s this)"
    "e32 (mul_assign_row2 this m s this) = e32 (s this)"
    "e33 (mul_assign_row2 this m s this) = e33 (s this)"
  using assms by (simp_all add: mul_assign_row2_def Let_def)

lemma mul_assign_row2_other:
  "a \<noteq> this \<Longrightarrow> mul_assign_row2 this m s a = s a"
  by (simp add: mul_assign_row2_def Let_def)

lemma mul_assign_row3_this:
  assumes "this \<noteq> m"
  shows
    "e00 (mul_assign_row3 this m s this) = e00 (s this)"
    "e01 (mul_assign_row3 this m s this) = e01 (s this)"
    "e02 (mul_assign_row3 this m s this) = e02 (s this)"
    "e03 (mul_assign_row3 this m s this) = e03 (s this)"
    "e10 (mul_assign_row3 this m s this) = e10 (s this)"
    "e11 (mul_assign_row3 this m s this) = e11 (s this)"
    "e12 (mul_assign_row3 this m s this) = e12 (s this)"
    "e13 (mul_assign_row3 this m s this) = e13 (s this)"
    "e20 (mul_assign_row3 this m s this) = e20 (s this)"
    "e21 (mul_assign_row3 this m s this) = e21 (s this)"
    "e22 (mul_assign_row3 this m s this) = e22 (s this)"
    "e23 (mul_assign_row3 this m s this) = e23 (s this)"
    "e30 (mul_assign_row3 this m s this) = 
       e30 (s this) * e00 (s m) + e31 (s this) * e10 (s m) + e32 (s this) * e20 (s m) + e33 (s this) * e30 (s m)"
    "e31 (mul_assign_row3 this m s this) = 
       e30 (s this) * e01 (s m) + e31 (s this) * e11 (s m) + e32 (s this) * e21 (s m) + e33 (s this) * e31 (s m)"
    "e32 (mul_assign_row3 this m s this) = 
       e30 (s this) * e02 (s m) + e31 (s this) * e12 (s m) + e32 (s this) * e22 (s m) + e33 (s this) * e32 (s m)"
    "e33 (mul_assign_row3 this m s this) = 
       e30 (s this) * e03 (s m) + e31 (s this) * e13 (s m) + e32 (s this) * e23 (s m) + e33 (s this) * e33 (s m)"
  using assms by (simp_all add: mul_assign_row3_def Let_def)

lemma mul_assign_row3_other:
  "a \<noteq> this \<Longrightarrow> mul_assign_row3 this m s a = s a"
  by (simp add: mul_assign_row3_def Let_def)

lemma mul_assign_rows_this:
  assumes "this \<noteq> m"
  shows "mul_assign_rows this m s this = operator_mul (s this) (s m)"
proof -
  from assms have arg: "m \<noteq> this" by simp
  note rows = mul_assign_row0_this [OF assms] mul_assign_row1_this [OF assms]
    mul_assign_row2_this [OF assms] mul_assign_row3_this [OF assms]
    mul_assign_row0_other [OF arg] mul_assign_row1_other [OF arg]
    mul_assign_row2_other [OF arg] mul_assign_row3_other [OF arg]
  show ?thesis
    by (rule CMatrix4x4.equality) (simp_all add: mul_assign_rows_def operator_mul_def rows)
qed

lemma mul_assign_rows_other:
  "a \<noteq> this \<Longrightarrow> mul_assign_rows this m s a = s a"
  by (simp add: mul_assign_rows_def
      mul_assign_row0_other mul_assign_row1_other mul_assign_row2_other mul_assign_row3_other)

lemma operator_mul_assign_other:
  "a \<noteq> this \<Longrightarrow> operator_mul_assign this m s a = s a"
  by (simp add: operator_mul_assign_def mul_assign_rows_other)

text \<open>
  The guard of the operator is needed: run on a receiver that is also the argument, the
  row blocks read members they have already overwritten.  On the sample matrix the
  second row starts from \<open>e00 = 90\<close> instead of \<open>1\<close>, and \<open>e10\<close> comes out as
  \<open>5 * 90 + 6 * 5 + 7 * 9 + 8 * 13 = 647\<close> where the product has \<open>202\<close>.
\<close>

lemma mul_assign_rows_aliased:
  "e10 (mul_assign_rows 0 0 sample_store 0) = 647 \<and>
   e10 (operator_mul sample_general sample_general) = 202"
  by (simp add: mul_assign_rows_def mul_assign_row0_def mul_assign_row1_def
      mul_assign_row2_def mul_assign_row3_def Let_def sample_store_def sample_general_def operator_mul_def)

text \<open>
  Claim C3.  For every receiver and argument, the aliased case included, \<^verbatim>\<open>m1 *= m2\<close>
  leaves in the receiver the binary product of the two matrices as they were before
  the call; in particular \<^verbatim>\<open>M *= M\<close> leaves \<open>multiply(M, M)\<close>.  No law of arithmetic is
  used: both sides are the same expressions.
\<close>

theorem operator_mul_assign_is_operator_mul:
  "operator_mul_assign this m s this = operator_mul (s this) (s m) \<and>
   operator_mul_assign this this s this = operator_mul (s this) (s this)"
  by (simp add: operator_mul_assign_def mul_assign_rows_this)

text \<open>The theorem on the sample store, aliased (\<open>0\<close>, \<open>0\<close>) and not aliased (\<open>0\<close>, \<open>1\<close>).\<close>

theorem operator_mul_assign_is_operator_mul_witness:
  "operator_mul_assign 0 0 sample_store 0 = operator_mul sample_general sample_general \<and>
   operator_mul_assign 0 1 sample_store 0 = operator_mul sample_general sample_affine \<and>
   e01 (operator_mul_assign 0 0 sample_store 0) = 100"
proof -
  have "e01 (operator_mul sample_general sample_general) = 100"
    by (simp add: operator_mul_def sample_general_def)
  with operator_mul_assign_is_operator_mul [of 0 0 sample_store]
    operator_mul_assign_is_operator_mul [of 0 1 sample_store]
  show ?thesis by (simp add: sample_store_def)
qed

section \<open>Row accessors\<close>

lemma int_0_to_3: "0 \<le> (r::int) \<Longrightarrow> r \<le> 3 \<Longrightarrow> r = 0 \<or> r = 1 \<or> r = 2 \<or> r = 3"
  by arith

text \<open>
  Claim C7.  For every matrix \<open>M\<close>, row index \<open>r\<close> in \<open>0..3\<close> and vector \<open>v\<close>: \<^verbatim>\<open>SetRow\<close>
  succeeds, \<^verbatim>\<open>GetRow\<close> of the same row then returns exactly \<open>v\<close>, the fourth element of
  row \<open>r\<close> (offset \<open>4 r + 3\<close>) is unchanged, and so is every element outside the first
  three positions of row \<open>r\<close>.
\<close>

theorem SetRow_GetRow_frame:
  assumes "0 \<le> r" and "r \<le> 3"
  shows "\<exists>M'. SetRow r v M = Some M' \<and> GetRow r M' = Some v \<and>
      elt_read (r * 4 + 3) M' = elt_read (r * 4 + 3) M \<and>
      (\<forall>i. i \<notin> {r * 4, r * 4 + 1, r * 4 + 2} \<longrightarrow> elt_read i M' = elt_read i M)"
  using int_0_to_3 [OF assms]
  by (elim disjE) (simp_all add: SetRow_def GetRow_def elt_write_def elt_read_def)

text \<open>The theorem at row \<open>3\<close>, the translation row: \<open>e33\<close> keeps its value \<open>16\<close>.\<close>

theorem SetRow_GetRow_frame_witness:
  "(0::int) \<le> 3 \<and> (3::int) \<le> 3 \<and>
   SetRow 3 sample_vector sample_general = Some (sample_general\<lparr>e30 := 21, e31 := 22, e32 := 23\<rparr>) \<and>
   (\<exists>M'. SetRow 3 sample_vector sample_general = Some M' \<and> GetRow 3 M' = Some sample_vector \<and>
      elt_read 15 M' = Some 16 \<and> elt_read 11 M' = elt_read 11 sample_general)"
proof -
  from SetRow_GetRow_frame [of 3 sample_vector sample_general]
  obtain M' where M': "SetRow 3 sample_vector sample_general = Some M'"
      "GetRow 3 M' = Some sample_vector"
      "elt_read (3 * 4 + 3) M' = elt_read (3 * 4 + 3) sample_general"
      "\<forall>i. i \<notin> {3 * 4, 3 * 4 + 1, 3 * 4 + 2} \<longrightarrow> elt_read i M' = elt_read i sample_general"
    by auto
  from M'(4) have "elt_read 11 M' = elt_read 11 sample_general" by simp
  moreover from M'(3) have "elt_read 15 M' = Some 16"
    by (simp add: elt_read_def sample_general_def)
  moreover have "SetRow 3 sample_vector sample_general =
      Some (sample_general\<lparr>e30 := 21, e31 := 22, e32 := 23\<rparr>)"
    by (simp add: SetRow_def elt_write_def sample_vector_def)
  ultimately show ?thesis using M'(1,2) by simp
qed

section \<open>Rotation about the X axis\<close>

text \<open>
  Claim C9.  For every angle \<open>a\<close>, \<^verbatim>\<open>MatrixRotationX(a)\<close> is the matrix with rows
  \<open>(1, 0, 0, 0)\<close>, \<open>(0, cos a, sin a, 0)\<close>, \<open>(0, - sin a, cos a, 0)\<close>, \<open>(0, 0, 0, 1)\<close>; in
  particular \<open>sin a\<close> stands at \<open>e12\<close> and \<open>- sin a\<close> at \<open>e21\<close>, and the rotation by \<open>0\<close> is
  the identity matrix.
\<close>

theorem MatrixRotationX_entries:
  "MatrixRotationX a =
    \<lparr> e00 = 1, e01 = 0, e02 = 0, e03 = 0,
      e10 = 0, e11 = cos a, e12 = sin a, e13 = 0,
      e20 = 0, e21 = - sin a, e22 = cos a, e23 = 0,
      e30 = 0, e31 = 0, e32 = 0, e33 = 1 \<rparr> \<and>
   e12 (MatrixRotationX a) = sin a \<and>
   e21 (MatrixRotationX a) = - sin a \<and>
   MatrixRotationX 0 = MatrixIdentity"
  by (simp add: MatrixRotationX_def MatrixIdentity_def Let_def)

section \<open>Affine inverse\<close>

text \<open>
  Claim C5.  For every input matrix, affine or not, the result of \<^verbatim>\<open>InverseAffine\<close> has
  the last column \<open>(e03, e13, e23, e33) = (0, 0, 0, 1)\<close>.  No law of arithmetic is used.
\<close>

theorem InverseAffine_last_column:
  "e03 (InverseAffine m) = 0 \<and> e13 (InverseAffine m) = 0 \<and>
   e23 (InverseAffine m) = 0 \<and> e33 (InverseAffine m) = 1"
  by (simp add: InverseAffine_def Let_def)

text \<open>
  Claim C10.  The result of \<^verbatim>\<open>InverseAffine\<close> does not depend on the last column of its
  input: two matrices that agree on the twelve members outside \<open>e03, e13, e23, e33\<close> have
  the same result, in every element.  No law of arithmetic is used.
\<close>

theorem InverseAffine_ignores_last_column:
  assumes "e00 m = e00 m'" "e01 m = e01 m'" "e02 m = e02 m'"
    and "e10 m = e10 m'" "e11 m = e11 m'" "e12 m = e12 m'"
    and "e20 m = e20 m'" "e21 m = e21 m'" "e22 m = e22 m'"
    and "e30 m = e30 m'" "e31 m = e31 m'" "e32 m = e32 m'"
  shows "InverseAffine m = InverseAffine m'"
  unfolding InverseAffine_def by (simp only: assms)

text \<open>The theorem at the sample affine matrix and a copy with another last column.\<close>

theorem InverseAffine_ignores_last_column_witness:
  "InverseAffine (sample_affine\<lparr>e03 := 7, e13 := 8, e23 := 9, e33 := 10\<rparr>) =
     InverseAffine sample_affine \<and>
   sample_affine\<lparr>e03 := 7, e13 := 8, e23 := 9, e33 := 10\<rparr> \<noteq> sample_affine"
proof -
  have "InverseAffine (sample_affine\<lparr>e03 := 7, e13 := 8, e23 := 9, e33 := 10\<rparr>) =
     InverseAffine sample_affine"
    by (rule InverseAffine_ignores_last_column) simp_all
  moreover have "sample_affine\<lparr>e03 := 7, e13 := 8, e23 := 9, e33 := 10\<rparr> \<noteq> sample_affine"
    by (simp add: sample_affine_def)
  ultimately show ?thesis by simp
qed

subsection \<open>The result, member by member\<close>

lemma InverseAffine_sel:
  "e00 (InverseAffine m) = (1 / det3 m) * (e11 m * e22 m - e12 m * e21 m)"
  "e10 (InverseAffine m) = (1 / det3 m) * (e12 m * e20 m - e10 m * e22 m)"
  "e20 (InverseAffine m) = (1 / det3 m) * (e10 m * e21 m - e11 m * e20 m)"
  "e01 (InverseAffine m) = (1 / det3 m) * (e21 m * e02 m - e22 m * e01 m)"
  "e11 (InverseAffine m) = (1 / det3 m) * (e22 m * e00 m - e20 m * e02 m)"
  "e21 (InverseAffine m) = (1 / det3 m) * (e20 m * e01 m - e21 m * e00 m)"
  "e02 (InverseAffine m) = (1 / det3 m) * (e01 m * e12 m - e02 m * e11 m)"
  "e12 (InverseAffine m) = (1 / det3 m) * (e02 m * e10 m - e00 m * e12 m)"
  "e22 (InverseAffine m) = (1 / det3 m) * (e00 m * e11 m - e01 m * e10 m)"
  "e30 (InverseAffine m) =
     (- e30 m) * e00 (InverseAffine m) - e31 m * e10 (InverseAffine m)
     - e32 m * e20 (InverseAffine m)"
  "e31 (InverseAffine m) =
     (- e30 m) * e01 (InverseAffine m) - e31 m * e11 (InverseAffine m)
     - e32 m * e21 (InverseAffine m)"
  "e32 (InverseAffine m) =
     (- e30 m) * e02 (InverseAffine m) - e31 m * e12 (InverseAffine m)
     - e32 m * e22 (InverseAffine m)"
  "e03 (InverseAffine m) = 0"
  "e13 (InverseAffine m) = 0"
  "e23 (InverseAffine m) = 0"
  "e33 (InverseAffine m) = 1"
  by (simp_all only: InverseAffine_def det3_def Let_def CMatrix4x4.simps)

subsection \<open>The machine type: a singular block\<close>



subsection \<open>Exact arithmetic: the result is the inverse\<close>

text \<open>
  In the lemmas and the two amended claims of this subsection the elements form a
  field.  With \<open>k = 1 / det3 m\<close> and \<open>det3 m \<noteq> 0\<close>, every equation is a polynomial
  identity in the members of \<open>m\<close> and \<open>k\<close>, modulo \<open>k * det3 m = 1\<close>.  The two computations
  at the machine type show where the machine parts from exact arithmetic.
\<close>

lemma operator_mul_InverseAffine:
  fixes m :: "'a::field CMatrix4x4"
  assumes col: "e03 m = 0" "e13 m = 0" "e23 m = 0" "e33 m = 1"
    and det: "det3 m \<noteq> 0"
  shows "operator_mul m (InverseAffine m) = MatrixIdentity"
proof -
  let ?n = "InverseAffine m"
  define k where "k = 1 / det3 m"
  note sel = InverseAffine_sel [of m, folded k_def]
  from det have "k * det3 m = 1" by (simp add: k_def)
  then have kD: "k * (e00 m * (e11 m * e22 m - e12 m * e21 m)
      + e01 m * (e12 m * e20 m - e10 m * e22 m)
      + e02 m * (e10 m * e21 m - e11 m * e20 m)) = 1"
    by (simp add: det3_def)
  have row0:
    "e00 m * e00 ?n + e01 m * e10 ?n + e02 m * e20 ?n = 1"
    "e00 m * e01 ?n + e01 m * e11 ?n + e02 m * e21 ?n = 0"
    "e00 m * e02 ?n + e01 m * e12 ?n + e02 m * e22 ?n = 0"
    unfolding sel using kD by (simp_all add: algebra_simps)
  have row1:
    "e10 m * e00 ?n + e11 m * e10 ?n + e12 m * e20 ?n = 0"
    "e10 m * e01 ?n + e11 m * e11 ?n + e12 m * e21 ?n = 1"
    "e10 m * e02 ?n + e11 m * e12 ?n + e12 m * e22 ?n = 0"
    unfolding sel using kD by (simp_all add: algebra_simps)
  have row2:
    "e20 m * e00 ?n + e21 m * e10 ?n + e22 m * e20 ?n = 0"
    "e20 m * e01 ?n + e21 m * e11 ?n + e22 m * e21 ?n = 0"
    "e20 m * e02 ?n + e21 m * e12 ?n + e22 m * e22 ?n = 1"
    unfolding sel using kD by (simp_all add: algebra_simps)
  have row3:
    "e30 m * e00 ?n + e31 m * e10 ?n + e32 m * e20 ?n + e30 ?n = 0"
    "e30 m * e01 ?n + e31 m * e11 ?n + e32 m * e21 ?n + e31 ?n = 0"
    "e30 m * e02 ?n + e31 m * e12 ?n + e32 m * e22 ?n + e32 ?n = 0"
    by (simp_all add: sel(10-12))
  show ?thesis
    by (simp add: operator_mul_def MatrixIdentity_def col sel(13-16) row0 row1 row2 row3)
qed

text \<open>
  Claim C1, amended.  In exact arithmetic (the elements of a field): for every matrix
  \<open>M\<close> whose last column is \<open>(0, 0, 0, 1)\<close> and whose upper-left 3x3 block has a nonzero
  determinant, \<open>multiply(M, InverseAffine(M))\<close> is the identity matrix, element for
  element.
\<close>

theorem InverseAffine_right_inverse:
  fixes M :: "'a::field CMatrix4x4"
  assumes "e03 M = 0" and "e13 M = 0" and "e23 M = 0" and "e33 M = 1"
    and "det3 M \<noteq> 0"
  shows "operator_mul M (InverseAffine M) = MatrixIdentity"
  using assms by (rule operator_mul_InverseAffine)

text \<open>The theorem at the sample affine matrix, whose block has determinant \<open>2\<close>.\<close>

theorem InverseAffine_right_inverse_witness:
  "e03 sample_affine = 0 \<and> e13 sample_affine = 0 \<and> e23 sample_affine = 0 \<and>
   e33 sample_affine = 1 \<and> det3 sample_affine = 2 \<and>
   operator_mul sample_affine (InverseAffine sample_affine) = MatrixIdentity"
proof -
  have col: "e03 sample_affine = 0" "e13 sample_affine = 0" "e23 sample_affine = 0"
    "e33 sample_affine = 1"
    by (simp_all add: sample_affine_def)
  have d: "det3 sample_affine = 2"
    by (simp add: det3_def sample_affine_def)
  then have "det3 sample_affine \<noteq> 0" by simp
  with col have "operator_mul sample_affine (InverseAffine sample_affine) = MatrixIdentity"
    by (rule InverseAffine_right_inverse)
  with col d show ?thesis by simp
qed

text \<open>
  Claim C1 as stated also speaks of the machine type, within a tolerance.  There it
  fails, beyond any tolerance, at the uniform scaling by \<open>2 ^ 50\<close>.  Its elements are finite, its last column is \<open>(0, 0, 0, 1)\<close> and its block has
  the determinant \<open>2 ^ 150\<close>.  The function computes \<open>det0 = 2 ^ 100\<close> and
  \<open>det = 2 ^ 50 * 2 ^ 100\<close>, which overflows to \<open>+inf\<close>; then \<open>invDet = 1 / inf = 0\<close>, the
  result is the scaling by \<open>0\<close>, and so is its product with the input: \<open>e00\<close> is \<open>0\<close>
  where the identity has \<open>1\<close>.
\<close>

theorem InverseAffine_right_inverse_counterexample:
  "finite_matrix (MatrixScaling (Finite (2 ^ 50))) \<and>
   e03 (MatrixScaling (Finite (2 ^ 50))) = 0 \<and> e13 (MatrixScaling (Finite (2 ^ 50))) = 0 \<and>
   e23 (MatrixScaling (Finite (2 ^ 50))) = 0 \<and> e33 (MatrixScaling (Finite (2 ^ 50))) = 1 \<and>
   det3 (MatrixScaling (2 ^ 50 :: real)) = 2 ^ 150 \<and>
   det3 (MatrixScaling (Finite (2 ^ 50))) = PlusInf \<and>
   det3 (MatrixScaling (Finite (2 ^ 50))) \<noteq> 0 \<and>
   InverseAffine (MatrixScaling (Finite (2 ^ 50))) = MatrixScaling (Finite 0) \<and>
   operator_mul (MatrixScaling (Finite (2 ^ 50))) (InverseAffine (MatrixScaling (Finite (2 ^ 50))))
     = MatrixScaling (Finite 0) \<and>
   operator_mul (MatrixScaling (Finite (2 ^ 50))) (InverseAffine (MatrixScaling (Finite (2 ^ 50))))
     \<noteq> MatrixIdentity"
  by (simp add: finite_matrix_def det3_def InverseAffine_def Let_def operator_mul_def
      MatrixScaling_def MatrixIdentity_def float32_eval)

text \<open>The block of the result has the reciprocal determinant; so it is invertible again.\<close>

lemma det3_InverseAffine:
  fixes m :: "'a::field CMatrix4x4"
  assumes "det3 m \<noteq> 0"
  shows "det3 (InverseAffine m) * det3 m = 1"
proof -
  define k where "k = 1 / det3 m"
  note sel = InverseAffine_sel [of m, folded k_def]
  from assms have kD: "k * det3 m = 1" by (simp add: k_def)
  have "det3 (InverseAffine m) = k * k * k * (det3 m * det3 m)"
    unfolding det3_def [of "InverseAffine m"] sel
    by (simp add: det3_def algebra_simps)
  also have "\<dots> * det3 m = (k * det3 m) * (k * det3 m) * (k * det3 m)"
    by (simp add: algebra_simps)
  finally show ?thesis by (simp add: kD)
qed

text \<open>
  Claim C4, amended.  In exact arithmetic (the elements of a field): for every matrix
  \<open>M\<close> whose last column is \<open>(0, 0, 0, 1)\<close> and whose upper-left 3x3 block has a nonzero
  determinant, \<open>InverseAffine(InverseAffine(M))\<close> is \<open>M\<close>, element for element.
\<close>

theorem InverseAffine_involution:
  fixes M :: "'a::field CMatrix4x4"
  assumes col: "e03 M = 0" "e13 M = 0" "e23 M = 0" "e33 M = 1"
    and det: "det3 M \<noteq> 0"
  shows "InverseAffine (InverseAffine M) = M"
proof -
  let ?n = "InverseAffine M"
  have mn: "operator_mul M ?n = MatrixIdentity"
    using col det by (rule operator_mul_InverseAffine)
  from det3_InverseAffine [OF det] have "det3 ?n \<noteq> 0"
    by auto
  then have nn: "operator_mul ?n (InverseAffine ?n) = MatrixIdentity"
    by (intro operator_mul_InverseAffine) (simp_all add: InverseAffine_sel(13-16))
  have "InverseAffine ?n = operator_mul MatrixIdentity (InverseAffine ?n)"
    by (simp only: operator_mul_id_left)
  also have "\<dots> = operator_mul M (operator_mul ?n (InverseAffine ?n))"
    by (simp only: mn [symmetric] operator_mul_assoc)
  also have "\<dots> = M"
    by (simp only: nn operator_mul_id_right)
  finally show ?thesis .
qed

text \<open>The theorem at the sample affine matrix, with the inverse it passes through.\<close>

theorem InverseAffine_involution_witness:
  "e03 sample_affine = 0 \<and> e13 sample_affine = 0 \<and> e23 sample_affine = 0 \<and>
   e33 sample_affine = 1 \<and> det3 sample_affine = 2 \<and>
   InverseAffine sample_affine =
     \<lparr> e00 = 1 / 2, e01 = 0, e02 = 0, e03 = 0,
       e10 = 0, e11 = 1, e12 = - 1, e13 = 0,
       e20 = 0, e21 = 0, e22 = 1, e23 = 0,
       e30 = - 3 / 2, e31 = - 4, e32 = - 1, e33 = 1 \<rparr> \<and>
   InverseAffine (InverseAffine sample_affine) = sample_affine"
proof -
  have col: "e03 sample_affine = 0" "e13 sample_affine = 0" "e23 sample_affine = 0"
    "e33 sample_affine = 1"
    by (simp_all add: sample_affine_def)
  have d: "det3 sample_affine = 2"
    by (simp add: det3_def sample_affine_def)
  then have "det3 sample_affine \<noteq> 0" by simp
  with col have "InverseAffine (InverseAffine sample_affine) = sample_affine"
    by (rule InverseAffine_involution)
  moreover have "InverseAffine sample_affine =
     \<lparr> e00 = 1 / 2, e01 = 0, e02 = 0, e03 = 0,
       e10 = 0, e11 = 1, e12 = - 1, e13 = 0,
       e20 = 0, e21 = 0, e22 = 1, e23 = 0,
       e30 = - 3 / 2, e31 = - 4, e32 = - 1, e33 = 1 \<rparr>"
    by (simp add: InverseAffine_def Let_def sample_affine_def)
  ultimately show ?thesis using col d by simp
qed

text \<open>
  Claim C4 as stated also speaks of the machine type, within a tolerance.  There it
  fails at the same uniform scaling by \<open>2 ^ 50\<close>.  The first
  inverse is the scaling by \<open>0\<close> (the determinant overflows); the second one divides by
  the determinant \<open>0\<close> and multiplies the infinity by \<open>0\<close>: its twelve computed members
  are NaN.
\<close>

theorem InverseAffine_involution_counterexample:
  "finite_matrix (MatrixScaling (Finite (2 ^ 50))) \<and>
   e03 (MatrixScaling (Finite (2 ^ 50))) = 0 \<and> e13 (MatrixScaling (Finite (2 ^ 50))) = 0 \<and>
   e23 (MatrixScaling (Finite (2 ^ 50))) = 0 \<and> e33 (MatrixScaling (Finite (2 ^ 50))) = 1 \<and>
   det3 (MatrixScaling (2 ^ 50 :: real)) = 2 ^ 150 \<and>
   det3 (MatrixScaling (Finite (2 ^ 50))) \<noteq> 0 \<and>
   InverseAffine (InverseAffine (MatrixScaling (Finite (2 ^ 50)))) =
     \<lparr> e00 = NaN, e01 = NaN, e02 = NaN, e03 = 0,
       e10 = NaN, e11 = NaN, e12 = NaN, e13 = 0,
       e20 = NaN, e21 = NaN, e22 = NaN, e23 = 0,
       e30 = NaN, e31 = NaN, e32 = NaN, e33 = 1 \<rparr> \<and>
   InverseAffine (InverseAffine (MatrixScaling (Finite (2 ^ 50))))
     \<noteq> MatrixScaling (Finite (2 ^ 50))"
  by (simp add: finite_matrix_def det3_def InverseAffine_def Let_def
      MatrixScaling_def float32_eval)

end
